theory Spec2Isabelle
  imports Main "HOL-Library.Sublist"
begin

section \<open>Exceptions, results and the job record\<close>

text \<open>
  The automator drives a browser through Selenium.  Every call into the browser either
  returns or raises.  The exception classes the source distinguishes in its handlers are
  \<open>TimeoutException\<close>, \<open>NoSuchElementException\<close> and
  \<open>ElementClickInterceptedException\<close> (all three are subclasses of
  \<open>WebDriverException\<close>); \<open>OtherWebDriverException\<close> stands for every
  other subclass of \<open>WebDriverException\<close> (a stale element reference, an element
  that is not interactable, a missing frame, a JavaScript error), \<open>ValueError\<close> is
  what \<open>int\<close> raises, and \<open>OtherException\<close> is any other subclass of
  Python's \<open>Exception\<close>.
\<close>

datatype exn =
    TimeoutException
  | NoSuchElementException
  | ElementClickInterceptedException
  | OtherWebDriverException
  | ValueError
  | OtherException

datatype 'a result = Returns 'a | Raises exn

text \<open>The dataclass \<open>JobData\<close> (lines 52-65), field for field.\<close>

record JobData =
  company_name :: string
  job_title :: string
  location :: string
  min_salary :: int
  max_salary :: int
  job_description :: string
  job_function :: string
  salary_breakup :: string
  posted_by :: string
  timestamp :: string
  is_ai_generated :: bool

text \<open>
  The dataclass constructor called with the two required fields only: every other field
  takes its declared default.
\<close>

definition JobData_init :: "string \<Rightarrow> string \<Rightarrow> JobData" where
  "JobData_init cn jt =
     \<lparr> company_name = cn, job_title = jt, location = ''Pune'',
       min_salary = 1000000, max_salary = 1500000, job_description = '''',
       job_function = '''', salary_breakup = '''', posted_by = '''',
       timestamp = '''', is_ai_generated = False \<rparr>"

section \<open>The orchestrator\<close>

text \<open>
  The method calls that \<open>run\<close> makes on the automator, with the arguments it
  passes.  \<open>Select_placement_option\<close> is called with no argument (its default option
  text), and the two rich-text stages are the same method with different labels.
\<close>

datatype call =
    Setup_driver
  | Login
  | Select_placement_option
  | Fill_company_data string
  | Fill_job_profile_title string
  | Fill_job_profile_source
  | Fill_job_location string
  | Fill_position_type
  | Fill_job_function string
  | Fill_category
  | Add_ctc_details int int
  | Click_is_equity_checkbox
  | Fill_tinymce_field_by_label string string
  | Click_create_and_confirm
  | Select_applicable_courses
  | Set_eligibility_criteria
  | Setup_hiring_workflow

text \<open>
  What a stage reported to \<open>run\<close>: it returned a true value, it returned a false
  value, or an exception came out of it.  \<open>setup_driver\<close> returns nothing; its
  report is \<open>Success\<close> when it returns and \<open>Fault\<close> when it raises.
\<close>

datatype report = Success | Failure | Fault exn

fun report_of :: "bool result \<Rightarrow> report" where
  "report_of (Returns True) = Success"
| "report_of (Returns False) = Failure"
| "report_of (Raises e) = Fault e"

text \<open>
  The browser and the remote site are the environment: \<open>new_chrome\<close> is
  \<open>webdriver.Chrome(...)\<close>, which opens a session or raises, and
  \<open>stage_body\<close> is what a stage method does to the remote UI \<open>'w\<close> and what it
  hands back.  Nothing is assumed about either: a stage may return either boolean or
  raise any exception, depending on the UI state it finds.
\<close>

record 'w environment =
  new_chrome :: "'w \<Rightarrow> exn option \<times> 'w"
  stage_body :: "call \<Rightarrow> 'w \<Rightarrow> bool result \<times> 'w"

text \<open>
  The automator object.  \<open>driver\<close> says whether \<open>self.driver\<close> is set,
  \<open>wait_timeout\<close> is the timeout of \<open>self.wait\<close>, \<open>browser\<close> is the
  remote UI.  The last three fields are bookkeeping for the statements below:
  whether a browser session is open, the stages invoked so far with their reports, and
  how often \<open>teardown\<close> was called.
\<close>

record 'w automator =
  driver :: bool
  wait_timeout :: "nat option"
  browser :: 'w
  session_open :: bool
  stage_log :: "(call \<times> report) list"
  teardown_calls :: nat

definition SupersetAutomator_init :: "'w \<Rightarrow> 'w automator" where
  "SupersetAutomator_init w =
     \<lparr> driver = False, wait_timeout = None, browser = w,
       session_open = False, stage_log = [], teardown_calls = 0 \<rparr>"

text \<open>
  \<open>setup_driver\<close> (lines 143-162): create the Chrome driver, then the wait object
  with a maximum of 15; an exception of the driver's creation is logged and re-raised,
  with \<open>self.driver\<close> still unset.
\<close>

definition setup_driver :: "'w environment \<Rightarrow> 'w automator \<Rightarrow> unit result \<times> 'w automator" where
  "setup_driver env s =
     (case new_chrome env (browser s) of
        (Some e, w) \<Rightarrow>
          (Raises e, s\<lparr>browser := w, stage_log := stage_log s @ [(Setup_driver, Fault e)]\<rparr>)
      | (None, w) \<Rightarrow>
          (Returns (),
           s\<lparr>driver := True, wait_timeout := Some 15, browser := w, session_open := True,
             stage_log := stage_log s @ [(Setup_driver, Success)]\<rparr>))"

text \<open>Calling one of the other stage methods.\<close>

definition invoke :: "'w environment \<Rightarrow> call \<Rightarrow> 'w automator \<Rightarrow> bool result \<times> 'w automator" where
  "invoke env c s =
     (case stage_body env c (browser s) of
        (r, w) \<Rightarrow> (r, s\<lparr>browser := w, stage_log := stage_log s @ [(c, report_of r)]\<rparr>))"

text \<open>
  The pattern that \<open>run\<close> repeats for every stage after the driver setup:
  \<^verbatim>\<open>ok = self.stage(...)\<close>, then \<^verbatim>\<open>if not ok: return False\<close>, then the rest.
  An exception of the stage leaves the \<open>try\<close> block at once.
\<close>

definition guard ::
  "('s \<Rightarrow> bool result \<times> 's) \<Rightarrow> ('s \<Rightarrow> bool result \<times> 's) \<Rightarrow> 's \<Rightarrow> bool result \<times> 's" where
  "guard stage rest s =
     (case stage s of
        (Raises e, s') \<Rightarrow> (Raises e, s')
      | (Returns ok, s') \<Rightarrow> if \<not> ok then (Returns False, s') else rest s')"

text \<open>
  The body of the \<open>try\<close> block of \<open>run\<close> (lines 1621-1742).  It yields
  \<open>Returns False\<close> for an early \<^verbatim>\<open>return False\<close>, \<open>Returns True\<close> when it
  reaches \<^verbatim>\<open>success = True\<close>, and \<open>Raises e\<close> when an exception leaves it.
\<close>

definition run_try :: "'w environment \<Rightarrow> JobData \<Rightarrow> 'w automator \<Rightarrow> bool result \<times> 'w automator" where
  "run_try env job s =
     (case setup_driver env s of
        (Raises e, s1) \<Rightarrow> (Raises e, s1)
      | (Returns u, s1) \<Rightarrow>
         (guard (invoke env Login)
         (guard (invoke env Select_placement_option)
         (guard (invoke env (Fill_company_data (company_name job)))
         (guard (invoke env (Fill_job_profile_title (job_title job)))
         (guard (invoke env Fill_job_profile_source)
         (guard (invoke env (Fill_job_location (location job)))
         (guard (invoke env Fill_position_type)
         (guard (invoke env (Fill_job_function (job_function job)))
         (guard (invoke env Fill_category)
         (guard (invoke env (Add_ctc_details (min_salary job) (max_salary job)))
         (guard (invoke env Click_is_equity_checkbox)
         (guard (invoke env (Fill_tinymce_field_by_label
                   ''Salary break-up / Additional Compensation'' (salary_breakup job)))
         (guard (invoke env (Fill_tinymce_field_by_label
                   ''Job Description'' (job_description job)))
         (guard (invoke env Click_create_and_confirm)
         (guard (invoke env Select_applicable_courses)
         (guard (invoke env Set_eligibility_criteria)
         (guard (invoke env Setup_hiring_workflow)
           (\<lambda>s'. (Returns True, s'))))))))))))))))))) s1)"

text \<open>
  \<open>teardown\<close> (lines 1596-1600): quit the driver when there is one.
  \<open>driver.quit()\<close> ends the browser session.
\<close>

definition teardown :: "'w automator \<Rightarrow> 'w automator" where
  "teardown s =
     (let s' = s\<lparr>teardown_calls := teardown_calls s + 1\<rparr>
      in if driver s' then s'\<lparr>session_open := False\<rparr> else s')"

text \<open>The job record that \<open>run\<close> works with (lines 1612-1616).\<close>

definition effective_job :: "JobData option \<Rightarrow> JobData" where
  "effective_job job_data =
     (case job_data of
        None \<Rightarrow> JobData_init ''Mercedes Benz'' ''Full Stack Developer''
      | Some j \<Rightarrow> j)"

text \<open>
  \<open>run\<close> (lines 1602-1751): \<open>success\<close> starts false; an early return inside the
  \<open>try\<close> hands back false; an exception is caught by \<^verbatim>\<open>except Exception\<close>,
  which sets \<open>success\<close> to false; the \<open>finally\<close> clause calls \<open>teardown\<close>
  on each of these paths before \<open>run\<close> hands its value back.
\<close>

definition run :: "'w environment \<Rightarrow> JobData option \<Rightarrow> 'w automator \<Rightarrow> bool \<times> 'w automator" where
  "run env job_data s =
     (case run_try env (effective_job job_data) s of
        (Returns success, s') \<Rightarrow> (success, teardown s')
      | (Raises e, s') \<Rightarrow> (False, teardown s'))"

text \<open>
  The stage methods after the driver setup, in the order in which \<open>run\<close> names
  them, and the same sequence run by a loop.  \<open>run_try_stages\<close> below shows that the
  straight-line body above is this loop.
\<close>

definition stage_calls :: "JobData \<Rightarrow> call list" where
  "stage_calls job =
     [Login, Select_placement_option, Fill_company_data (company_name job),
      Fill_job_profile_title (job_title job), Fill_job_profile_source,
      Fill_job_location (location job), Fill_position_type,
      Fill_job_function (job_function job), Fill_category,
      Add_ctc_details (min_salary job) (max_salary job), Click_is_equity_checkbox,
      Fill_tinymce_field_by_label ''Salary break-up / Additional Compensation'' (salary_breakup job),
      Fill_tinymce_field_by_label ''Job Description'' (job_description job),
      Click_create_and_confirm, Select_applicable_courses, Set_eligibility_criteria,
      Setup_hiring_workflow]"

fun run_stages :: "'w environment \<Rightarrow> call list \<Rightarrow> 'w automator \<Rightarrow> bool result \<times> 'w automator" where
  "run_stages env [] = (\<lambda>s. (Returns True, s))"
| "run_stages env (c # cs) = guard (invoke env c) (run_stages env cs)"

text \<open>
  What a run started on a fresh automator hands back, and the stages it invoked with
  their reports.
\<close>

definition run_result :: "'w environment \<Rightarrow> JobData option \<Rightarrow> 'w \<Rightarrow> bool" where
  "run_result env job_data w = fst (run env job_data (SupersetAutomator_init w))"

definition run_log :: "'w environment \<Rightarrow> JobData option \<Rightarrow> 'w \<Rightarrow> (call \<times> report) list" where
  "run_log env job_data w = stage_log (snd (run env job_data (SupersetAutomator_init w)))"

text \<open>Environments for the concrete runs below.\<close>

definition healthy :: "nat environment" where
  "healthy = \<lparr> new_chrome = (\<lambda>w. (None, Suc w)),
               stage_body = (\<lambda>c w. (Returns True, Suc w)) \<rparr>"

definition rejecting :: "call \<Rightarrow> nat environment" where
  "rejecting bad = \<lparr> new_chrome = (\<lambda>w. (None, Suc w)),
                     stage_body = (\<lambda>c w. (Returns (c \<noteq> bad), Suc w)) \<rparr>"

definition crashing :: "call \<Rightarrow> exn \<Rightarrow> nat environment" where
  "crashing bad e = \<lparr> new_chrome = (\<lambda>w. (if bad = Setup_driver then Some e else None, Suc w)),
                      stage_body = (\<lambda>c w. (if c = bad then Raises e else Returns True, Suc w)) \<rparr>"

section \<open>The interaction layer\<close>

text \<open>
  What the interaction primitives do to an element, in the order in which they try it.
\<close>

datatype ui_op =
    Scroll_into_view
  | Native_click
  | Script_click
  | Clear_field
  | Send_keys string
  | Assign_and_dispatch_input int

text \<open>
  The browser's answers at the call sites of \<open>safe_click\<close>: \<open>None\<close> when the
  call returns, \<open>Some e\<close> when it raises \<open>e\<close>.
\<close>

record click_site =
  scroll_script :: "exn option"
  element_click :: "exn option"
  click_script :: "exn option"

text \<open>The \<open>try\<close> block of \<open>safe_click\<close> (lines 78-81).\<close>

definition safe_click_try :: "click_site \<Rightarrow> bool result \<times> ui_op list" where
  "safe_click_try u =
     (case scroll_script u of
        Some e \<Rightarrow> (Raises e, [Scroll_into_view])
      | None \<Rightarrow>
         (case element_click u of
            Some e \<Rightarrow> (Raises e, [Scroll_into_view, Native_click])
          | None \<Rightarrow> (Returns True, [Scroll_into_view, Native_click])))"

text \<open>
  \<open>safe_click\<close> (lines 75-91): the handler of
  \<open>ElementClickInterceptedException\<close> clicks through a script and hands back false
  when that raises; the handler of every other exception hands back false.
\<close>

definition safe_click :: "click_site \<Rightarrow> bool result \<times> ui_op list" where
  "safe_click u =
     (case safe_click_try u of
        (Returns b, ops) \<Rightarrow> (Returns b, ops)
      | (Raises e, ops) \<Rightarrow>
          if e = ElementClickInterceptedException then
            (case click_script u of
               None \<Rightarrow> (Returns True, ops @ [Script_click])
             | Some e' \<Rightarrow> (Returns False, ops @ [Script_click]))
          else (Returns False, ops))"

record input_site =
  element_clear :: "exn option"
  element_send_keys :: "exn option"

text \<open>\<open>safe_input\<close> (lines 93-101): its \<open>try\<close> block, then the function.\<close>

definition safe_input_try :: "input_site \<Rightarrow> string \<Rightarrow> bool result \<times> ui_op list" where
  "safe_input_try u v =
     (case element_clear u of
        Some e \<Rightarrow> (Raises e, [Clear_field])
      | None \<Rightarrow>
         (case element_send_keys u of
            Some e \<Rightarrow> (Raises e, [Clear_field, Send_keys v])
          | None \<Rightarrow> (Returns True, [Clear_field, Send_keys v])))"

definition safe_input :: "input_site \<Rightarrow> string \<Rightarrow> bool result \<times> ui_op list" where
  "safe_input u v =
     (case safe_input_try u v of
        (Returns b, ops) \<Rightarrow> (Returns b, ops)
      | (Raises e, ops) \<Rightarrow> (Returns False, ops))"

text \<open>
  An input element of the page: the value it holds, and how many \<open>input\<close> events
  were dispatched on it.
\<close>

record input_element =
  field_value :: "int option"
  input_events :: nat

text \<open>
  \<open>js_input\<close> (lines 103-114) runs one script, which assigns the value to the
  element and dispatches an \<open>input\<close> event on it; \<open>script\<close> is the browser's
  answer to that script.  When the script raises, the element is left as it was and the
  function hands back false.
\<close>

definition js_input :: "exn option \<Rightarrow> input_element \<Rightarrow> int \<Rightarrow> bool result \<times> input_element" where
  "js_input script el v =
     (case script of
        None \<Rightarrow> (Returns True, \<lparr>field_value = Some v, input_events = input_events el + 1\<rparr>)
      | Some e \<Rightarrow> (Returns False, el))"

section \<open>The salary range stage\<close>

datatype ctc_event = Range_clicked | Js_input_min int | Js_input_max int

record ctc_form =
  range_mode :: bool
  ctcMin :: input_element
  ctcMax :: input_element
  ctc_events :: "ctc_event list"

text \<open>The browser's answers at the call sites of \<open>add_ctc_details\<close>, in source order.\<close>

record ctc_site =
  wait_specify_range :: "exn option"
  scroll_specify_range :: "exn option"
  click_specify_range :: "exn option"
  script_click_specify_range :: "exn option"
  scroll_to_top :: "exn option"
  find_ctcMin :: "exn option"
  find_ctcMax :: "exn option"
  script_ctcMin :: "exn option"
  script_ctcMax :: "exn option"

text \<open>
  Lines 717-721: the native click on "Specify Range", with the script click as the
  handler of the click-intercepted exception.
\<close>

definition click_range :: "ctc_site \<Rightarrow> exn option" where
  "click_range u =
     (case click_specify_range u of
        None \<Rightarrow> None
      | Some e \<Rightarrow>
          if e = ElementClickInterceptedException then script_click_specify_range u
          else Some e)"

text \<open>
  The \<open>try\<close> block of \<open>add_ctc_details\<close> (lines 712-742).  What the two calls of
  \<open>js_input\<close> hand back is dropped, as in the source.
\<close>

definition add_ctc_details_try :: "ctc_site \<Rightarrow> int \<Rightarrow> int \<Rightarrow> ctc_form \<Rightarrow> bool result \<times> ctc_form" where
  "add_ctc_details_try u min_sal max_sal f =
     (case wait_specify_range u of Some e \<Rightarrow> (Raises e, f) | None \<Rightarrow>
     (case scroll_specify_range u of Some e \<Rightarrow> (Raises e, f) | None \<Rightarrow>
     (case click_range u of Some e \<Rightarrow> (Raises e, f) | None \<Rightarrow>
       (let f1 = f\<lparr>range_mode := True, ctc_events := ctc_events f @ [Range_clicked]\<rparr> in
     (case scroll_to_top u of Some e \<Rightarrow> (Raises e, f1) | None \<Rightarrow>
     (case find_ctcMin u of Some e \<Rightarrow> (Raises e, f1) | None \<Rightarrow>
     (case find_ctcMax u of Some e \<Rightarrow> (Raises e, f1) | None \<Rightarrow>
       (let f2 = f1\<lparr>ctcMin := snd (js_input (script_ctcMin u) (ctcMin f1) min_sal),
                    ctc_events := ctc_events f1 @ [Js_input_min min_sal]\<rparr>;
            f3 = f2\<lparr>ctcMax := snd (js_input (script_ctcMax u) (ctcMax f2) max_sal),
                    ctc_events := ctc_events f2 @ [Js_input_max max_sal]\<rparr>
        in (Returns True, f3)))))))))"

text \<open>
  \<open>add_ctc_details\<close> (lines 700-758): each of its handlers hands back false, and the
  last one catches every exception.
\<close>

definition add_ctc_details :: "ctc_site \<Rightarrow> int \<Rightarrow> int \<Rightarrow> ctc_form \<Rightarrow> bool result \<times> ctc_form" where
  "add_ctc_details u min_sal max_sal f =
     (case add_ctc_details_try u min_sal max_sal f of
        (Returns b, f') \<Rightarrow> (Returns b, f')
      | (Raises e, f') \<Rightarrow> (Returns False, f'))"

definition blank_form :: ctc_form where
  "blank_form = \<lparr> range_mode = False,
                  ctcMin = \<lparr>field_value = None, input_events = 0\<rparr>,
                  ctcMax = \<lparr>field_value = None, input_events = 0\<rparr>,
                  ctc_events = [] \<rparr>"

definition cooperative_ctc :: ctc_site where
  "cooperative_ctc = \<lparr> wait_specify_range = None, scroll_specify_range = None,
      click_specify_range = None, script_click_specify_range = None, scroll_to_top = None,
      find_ctcMin = None, find_ctcMax = None, script_ctcMin = None, script_ctcMax = None \<rparr>"

section \<open>The rich-text stages\<close>

datatype frame_context = Default_content | In_frame

record page =
  current_frame :: frame_context
  editor_text :: "string option"

text \<open>
  The browser's answers at the call sites of \<open>fill_tinymce_field_by_label\<close>, in
  source order; the last one is the \<open>switch_to.default_content()\<close> of the handler.
\<close>

record tinymce_site =
  wait_label :: "exn option"
  find_iframe :: "exn option"
  switch_to_frame :: "exn option"
  wait_body :: "exn option"
  clear_body :: "exn option"
  send_keys_body :: "exn option"
  switch_to_default :: "exn option"
  handler_switch_to_default :: "exn option"

text \<open>The \<open>try\<close> block (lines 800-821).\<close>

definition fill_tinymce_try :: "tinymce_site \<Rightarrow> string \<Rightarrow> page \<Rightarrow> bool result \<times> page" where
  "fill_tinymce_try u content p =
     (case wait_label u of Some e \<Rightarrow> (Raises e, p) | None \<Rightarrow>
     (case find_iframe u of Some e \<Rightarrow> (Raises e, p) | None \<Rightarrow>
     (case switch_to_frame u of Some e \<Rightarrow> (Raises e, p) | None \<Rightarrow>
       (let p1 = p\<lparr>current_frame := In_frame\<rparr> in
     (case wait_body u of Some e \<Rightarrow> (Raises e, p1) | None \<Rightarrow>
     (case clear_body u of Some e \<Rightarrow> (Raises e, p1) | None \<Rightarrow>
       (let p2 = p1\<lparr>editor_text := Some []\<rparr> in
     (case send_keys_body u of Some e \<Rightarrow> (Raises e, p2) | None \<Rightarrow>
       (let p3 = p2\<lparr>editor_text := Some content\<rparr> in
     (case switch_to_default u of Some e \<Rightarrow> (Raises e, p3) | None \<Rightarrow>
       (Returns True, p3\<lparr>current_frame := Default_content\<rparr>)))))))))))"

text \<open>
  \<open>fill_tinymce_field_by_label\<close> (lines 789-829).  Its only handler is for
  \<open>TimeoutException\<close> and \<open>NoSuchElementException\<close>: it switches back to the
  default content, swallowing whatever that raises, and hands back false.  Any other
  exception leaves the function.
\<close>

definition fill_tinymce_field_by_label ::
  "tinymce_site \<Rightarrow> string \<Rightarrow> string \<Rightarrow> page \<Rightarrow> bool result \<times> page" where
  "fill_tinymce_field_by_label u label_text content p =
     (case fill_tinymce_try u content p of
        (Returns b, p') \<Rightarrow> (Returns b, p')
      | (Raises e, p') \<Rightarrow>
          if e = TimeoutException \<or> e = NoSuchElementException then
            (Returns False,
             case handler_switch_to_default u of
               None \<Rightarrow> p'\<lparr>current_frame := Default_content\<rparr>
             | Some e' \<Rightarrow> p')
          else (Raises e, p'))"

definition fresh_page :: page where
  "fresh_page = \<lparr> current_frame = Default_content, editor_text = None \<rparr>"

text \<open>A page on which everything works but clearing the editor's body, which raises \<open>e\<close>.\<close>

definition body_clear_raises :: "exn \<Rightarrow> tinymce_site" where
  "body_clear_raises e = \<lparr> wait_label = None, find_iframe = None, switch_to_frame = None,
      wait_body = None, clear_body = Some e, send_keys_body = None,
      switch_to_default = None, handler_switch_to_default = None \<rparr>"

section \<open>The company stage\<close>

text \<open>
  Strings are lists of code points below 256.  \<open>py_lower\<close> is \<open>str.lower()\<close> on
  them: the letters A to Z and the capital letters of Latin-1 (all of 0xC0 to 0xDE but
  the multiplication sign 0xD7) move up by 32, every other code point stays.
\<close>

definition char_lower :: "char \<Rightarrow> char" where
  "char_lower c =
     (let n = (of_char c :: nat)
      in if (65 \<le> n \<and> n \<le> 90) \<or> (192 \<le> n \<and> n \<le> 222 \<and> n \<noteq> 215)
         then char_of (n + 32) else c)"

definition py_lower :: "string \<Rightarrow> string" where
  "py_lower s = map char_lower s"

datatype method_call = Select_company | Add_new_company

text \<open>
  The part of the form that the company stage works on: the suggestion that was clicked
  in the main form, the names submitted through the "Add Company" button of the modal,
  and the sub-flows called so far.
\<close>

record company_form =
  selected_company :: "string option"
  companies_added :: "string list"
  method_calls :: "method_call list"

text \<open>
  The browser's answers at the call sites of \<open>select_company\<close>;
  \<open>wait_suggestions\<close> yields the texts of the suggestions shown.
\<close>

record select_site =
  wait_company_input :: "exn option"
  clear_company_input :: "exn option"
  type_company_name :: "exn option"
  wait_suggestions :: "exn + string list"
  click_suggestion :: "exn option"

text \<open>
  The \<open>try\<close> block of \<open>select_company\<close> (lines 416-442): the loop clicks the
  first suggestion whose lower-cased text contains the lower-cased name.
\<close>

definition select_company_try :: "select_site \<Rightarrow> string \<Rightarrow> company_form \<Rightarrow> bool result \<times> company_form" where
  "select_company_try u name f =
     (case wait_company_input u of Some e \<Rightarrow> (Raises e, f) | None \<Rightarrow>
     (case clear_company_input u of Some e \<Rightarrow> (Raises e, f) | None \<Rightarrow>
     (case type_company_name u of Some e \<Rightarrow> (Raises e, f) | None \<Rightarrow>
     (case wait_suggestions u of Inl e \<Rightarrow> (Raises e, f) | Inr suggestions \<Rightarrow>
     (case find (\<lambda>t. sublist (py_lower name) (py_lower t)) suggestions of
        None \<Rightarrow> (Returns False, f)
      | Some t \<Rightarrow>
         (case click_suggestion u of
            Some e \<Rightarrow> (Raises e, f)
          | None \<Rightarrow> (Returns True, f\<lparr>selected_company := Some t\<rparr>)))))))"

text \<open>\<open>select_company\<close> (lines 405-449): both handlers hand back false.\<close>

definition select_company :: "select_site \<Rightarrow> string \<Rightarrow> company_form \<Rightarrow> bool result \<times> company_form" where
  "select_company u name f =
     (case select_company_try u name (f\<lparr>method_calls := method_calls f @ [Select_company]\<rparr>) of
        (Returns b, f') \<Rightarrow> (Returns b, f')
      | (Raises e, f') \<Rightarrow> (Returns False, f'))"

text \<open>The browser's answers at the call sites of \<open>add_new_company\<close>, in source order.\<close>

record create_site =
  find_no_match_message :: "exn option"
  no_match_displayed :: "exn + bool"
  find_add_new_button :: "exn option"
  click_add_new_button :: "exn option"
  wait_modal :: "exn option"
  wait_name_input :: "exn option"
  clear_name_input :: "exn option"
  type_name :: "exn option"
  wait_company_list :: "exn + string list"
  click_list_entry :: "exn option"
  wait_add_company_button :: "exn option"
  click_add_company_button :: "exn option"
  wait_toast :: "exn option"

text \<open>
  Lines 382-396 of \<open>add_new_company\<close>: click "Add Company", then wait for the toast.
\<close>

definition submit_new_company :: "create_site \<Rightarrow> string \<Rightarrow> company_form \<Rightarrow> bool result \<times> company_form" where
  "submit_new_company u name f =
     (case wait_add_company_button u of Some e \<Rightarrow> (Raises e, f) | None \<Rightarrow>
     (case click_add_company_button u of Some e \<Rightarrow> (Raises e, f) | None \<Rightarrow>
       (let f1 = f\<lparr>companies_added := companies_added f @ [name]\<rparr> in
     (case wait_toast u of Some e \<Rightarrow> (Raises e, f1) | None \<Rightarrow> (Returns True, f1)))))"

text \<open>
  The \<open>try\<close> block of \<open>add_new_company\<close> (lines 337-396).  When the "no matching
  companies" message is not displayed, the block ends without a \<open>return\<close> and the
  function hands back the false of its last line.
\<close>

definition add_new_company_try :: "create_site \<Rightarrow> string \<Rightarrow> company_form \<Rightarrow> bool result \<times> company_form" where
  "add_new_company_try u name f =
     (case find_no_match_message u of Some e \<Rightarrow> (Raises e, f) | None \<Rightarrow>
     (case no_match_displayed u of Inl e \<Rightarrow> (Raises e, f) | Inr displayed \<Rightarrow>
       if \<not> displayed then (Returns False, f) else
     (case find_add_new_button u of Some e \<Rightarrow> (Raises e, f) | None \<Rightarrow>
     (case click_add_new_button u of Some e \<Rightarrow> (Raises e, f) | None \<Rightarrow>
     (case wait_modal u of Some e \<Rightarrow> (Raises e, f) | None \<Rightarrow>
     (case wait_name_input u of Some e \<Rightarrow> (Raises e, f) | None \<Rightarrow>
     (case clear_name_input u of Some e \<Rightarrow> (Raises e, f) | None \<Rightarrow>
     (case type_name u of Some e \<Rightarrow> (Raises e, f) | None \<Rightarrow>
     (case wait_company_list u of Inl e \<Rightarrow> (Raises e, f) | Inr company_list \<Rightarrow>
     (case find (\<lambda>t. py_lower name = py_lower t) company_list of
        None \<Rightarrow> submit_new_company u name f
      | Some t \<Rightarrow>
         (case click_list_entry u of
            Some e \<Rightarrow> (Raises e, f)
          | None \<Rightarrow> submit_new_company u name f)))))))))))"

text \<open>\<open>add_new_company\<close> (lines 326-403): both handlers fall through to the false.\<close>

definition add_new_company :: "create_site \<Rightarrow> string \<Rightarrow> company_form \<Rightarrow> bool result \<times> company_form" where
  "add_new_company u name f =
     (case add_new_company_try u name (f\<lparr>method_calls := method_calls f @ [Add_new_company]\<rparr>) of
        (Returns b, f') \<Rightarrow> (Returns b, f')
      | (Raises e, f') \<Rightarrow> (Returns False, f'))"

text \<open>
  The browser's answers to the sub-flows of \<open>fill_company_data\<close>: to the first
  selection, to the creation, and to the selection after the creation.
\<close>

record company_site =
  first_selection :: select_site
  creation :: create_site
  second_selection :: select_site

text \<open>
  The \<open>try\<close> block of \<open>fill_company_data\<close> (lines 462-475).  What the second
  \<open>select_company\<close> hands back is dropped, as in the source.
\<close>

definition fill_company_data_try :: "company_site \<Rightarrow> string \<Rightarrow> company_form \<Rightarrow> bool result \<times> company_form" where
  "fill_company_data_try u name f =
     (case select_company (first_selection u) name f of
        (Raises e, f1) \<Rightarrow> (Raises e, f1)
      | (Returns company_selected, f1) \<Rightarrow>
          if \<not> company_selected then
            (case add_new_company (creation u) name f1 of
               (Raises e, f2) \<Rightarrow> (Raises e, f2)
             | (Returns new_company_added, f2) \<Rightarrow>
                 if new_company_added then
                   (case select_company (second_selection u) name f2 of
                      (Raises e, f3) \<Rightarrow> (Raises e, f3)
                    | (Returns b, f3) \<Rightarrow> (Returns True, f3))
                 else (Returns False, f2))
          else (Returns True, f1))"

text \<open>\<open>fill_company_data\<close> (lines 451-478).\<close>

definition fill_company_data :: "company_site \<Rightarrow> string \<Rightarrow> company_form \<Rightarrow> bool result \<times> company_form" where
  "fill_company_data u name f =
     (case fill_company_data_try u name f of
        (Returns b, f') \<Rightarrow> (Returns b, f')
      | (Raises e, f') \<Rightarrow> (Returns False, f'))"

definition empty_company_form :: company_form where
  "empty_company_form = \<lparr> selected_company = None, companies_added = [], method_calls = [] \<rparr>"

text \<open>A search for which no suggestion list appears within the wait.\<close>

definition no_suggestions :: select_site where
  "no_suggestions = \<lparr> wait_company_input = None, clear_company_input = None,
      type_company_name = None, wait_suggestions = Inl TimeoutException,
      click_suggestion = None \<rparr>"

text \<open>A creation dialog in which everything works; the modal lists no company.\<close>

definition creation_works :: create_site where
  "creation_works = \<lparr> find_no_match_message = None, no_match_displayed = Inr True,
      find_add_new_button = None, click_add_new_button = None, wait_modal = None,
      wait_name_input = None, clear_name_input = None, type_name = None,
      wait_company_list = Inr [''Other Company''], click_list_entry = None,
      wait_add_company_button = None, click_add_company_button = None,
      wait_toast = None \<rparr>"

text \<open>
  The company is unknown, its creation works, and the search after the creation shows
  no suggestion list within the wait either.
\<close>

definition created_but_not_found :: company_site where
  "created_but_not_found = \<lparr> first_selection = no_suggestions, creation = creation_works,
      second_selection = no_suggestions \<rparr>"

section \<open>Wait budgets\<close>

text \<open>
  The maximum wait of every \<open>until\<close> call site of the stage methods, method by
  method, in source order.  \<open>self.wait\<close> is built with 15 by \<open>setup_driver\<close>
  (line 157); the rich-text stage and the create-and-confirm stage build their own waits
  with 10 (lines 802, 811, 842, 889, 907); the last three stages build \<open>long_wait\<close>
  with 30 (lines 929, 1212, 1394).
\<close>

definition session_wait :: nat where
  "session_wait = 15"

definition select_company_waits :: "nat list" where
  "select_company_waits = [session_wait, session_wait]"

definition add_new_company_waits :: "nat list" where
  "add_new_company_waits =
     [session_wait, session_wait, session_wait, session_wait, session_wait]"

fun wait_budgets :: "call \<Rightarrow> nat list" where
  "wait_budgets Setup_driver = []"
| "wait_budgets Login = [session_wait, session_wait, session_wait, session_wait]"
| "wait_budgets Select_placement_option = [session_wait, session_wait, session_wait]"
| "wait_budgets (Fill_company_data n) =
     select_company_waits @ add_new_company_waits @ select_company_waits"
| "wait_budgets (Fill_job_profile_title t) = [session_wait]"
| "wait_budgets Fill_job_profile_source = [session_wait, session_wait]"
| "wait_budgets (Fill_job_location l) = [session_wait]"
| "wait_budgets Fill_position_type = [session_wait, session_wait]"
| "wait_budgets (Fill_job_function i) = [session_wait, session_wait]"
| "wait_budgets Fill_category = [session_wait, session_wait]"
| "wait_budgets (Add_ctc_details a b) = [session_wait]"
| "wait_budgets Click_is_equity_checkbox = [session_wait]"
| "wait_budgets (Fill_tinymce_field_by_label l c) = [10, 10]"
| "wait_budgets Click_create_and_confirm = [10, 10, 10]"
| "wait_budgets Select_applicable_courses = [30, 30, 30, 30, 30]"
| "wait_budgets Set_eligibility_criteria = [30, 30, 30]"
| "wait_budgets Setup_hiring_workflow = [30, 30, 30, 30]"

fun long_running :: "call \<Rightarrow> bool" where
  "long_running Select_applicable_courses = True"
| "long_running Set_eligibility_criteria = True"
| "long_running Setup_hiring_workflow = True"
| "long_running c = False"

fun builds_own_wait :: "call \<Rightarrow> bool" where
  "builds_own_wait (Fill_tinymce_field_by_label l c) = True"
| "builds_own_wait Click_create_and_confirm = True"
| "builds_own_wait c = False"

section \<open>The caller's form\<close>

text \<open>
  \<open>str.isdigit()\<close> on code points below 256: the ten decimal digits and the three
  superscript digits 0xB2, 0xB3 and 0xB9; the empty string has no digits.
\<close>

definition char_isdecimal :: "char \<Rightarrow> bool" where
  "char_isdecimal c = (48 \<le> (of_char c :: nat) \<and> (of_char c :: nat) \<le> 57)"

definition char_isdigit :: "char \<Rightarrow> bool" where
  "char_isdigit c = (char_isdecimal c \<or> (of_char c :: nat) \<in> {178, 179, 185})"

definition str_isdigit :: "string \<Rightarrow> bool" where
  "str_isdigit s = (s \<noteq> [] \<and> list_all char_isdigit s)"

text \<open>
  \<open>int\<close> on a string for which \<open>isdigit\<close> holds: the decimal value when every
  character is a decimal digit, and a \<open>ValueError\<close> when a superscript digit occurs.
\<close>

definition int_of_digits :: "string \<Rightarrow> int result" where
  "int_of_digits s =
     (if list_all char_isdecimal s
      then Returns (foldl (\<lambda>acc c. 10 * acc + (int (of_char c) - 48)) 0 s)
      else Raises ValueError)"

text \<open>
  The salary entries of the submit handler (main.py, lines 142-143):
  \<^verbatim>\<open>int(min_salary) if min_salary.isdigit() else 0\<close>.
\<close>

definition form_salary :: "string \<Rightarrow> int result" where
  "form_salary s = (if str_isdigit s then int_of_digits s else Returns 0)"

section \<open>Properties of the orchestrator\<close>

lemma run_try_stages:
  "run_try env job s =
     (case setup_driver env s of
        (Raises e, s1) \<Rightarrow> (Raises e, s1)
      | (Returns u, s1) \<Rightarrow> run_stages env (stage_calls job) s1)"
  by (simp add: run_try_def stage_calls_def split: prod.splits result.splits)

lemma invoke_effect:
  "invoke env c s = (r, s') \<Longrightarrow>
     stage_log s' = stage_log s @ [(c, report_of r)] \<and> driver s' = driver s \<and>
     session_open s' = session_open s \<and> teardown_calls s' = teardown_calls s"
  by (auto simp: invoke_def split: prod.splits)

lemma run_stages_effect:
  "run_stages env cs s = (r, s') \<Longrightarrow>
     \<exists>es. stage_log s' = stage_log s @ es \<and> prefix (map fst es) cs \<and>
          (\<forall>e \<in> set (butlast es). snd e = Success) \<and>
          (r = Returns True \<longleftrightarrow> (\<forall>e \<in> set es. snd e = Success)) \<and>
          (r = Returns True \<longrightarrow> map fst es = cs) \<and>
          (r \<noteq> Returns True \<longrightarrow> es \<noteq> []) \<and>
          driver s' = driver s \<and> session_open s' = session_open s \<and>
          teardown_calls s' = teardown_calls s"
proof (induction cs arbitrary: s r s')
  case Nil
  then show ?case by auto
next
  case (Cons c cs)
  obtain r0 s0 where inv: "invoke env c s = (r0, s0)" by (cases "invoke env c s")
  note eff = invoke_effect [OF inv]
  show ?case
  proof (cases r0)
    case (Raises e)
    with Cons.prems inv have "r = Raises e" "s' = s0" by (auto simp: guard_def)
    with eff Raises show ?thesis
      by (intro exI [of _ "[(c, Fault e)]"]) auto
  next
    case (Returns ok)
    show ?thesis
    proof (cases ok)
      case False
      with Returns Cons.prems inv have "r = Returns False" "s' = s0" by (auto simp: guard_def)
      with eff Returns False show ?thesis
        by (intro exI [of _ "[(c, Failure)]"]) auto
    next
      case True
      with Returns Cons.prems inv have rest: "run_stages env cs s0 = (r, s')"
        by (auto simp: guard_def)
      from Cons.IH [OF rest] obtain es where es:
        "stage_log s' = stage_log s0 @ es" "prefix (map fst es) cs"
        "\<forall>e \<in> set (butlast es). snd e = Success"
        "r = Returns True \<longleftrightarrow> (\<forall>e \<in> set es. snd e = Success)"
        "r = Returns True \<longrightarrow> map fst es = cs"
        "r \<noteq> Returns True \<longrightarrow> es \<noteq> []"
        "driver s' = driver s0" "session_open s' = session_open s0"
        "teardown_calls s' = teardown_calls s0"
        by blast
      have bl: "\<forall>e \<in> set (butlast ((c, Success) # es)). snd e = Success"
        using es(3) by (cases es) auto
      have 1: "stage_log s' = stage_log s @ (c, Success) # es"
        using es(1) eff Returns True by simp
      have 2: "prefix (map fst ((c, Success) # es)) (c # cs)"
        using es(2) by simp
      have 4: "r = Returns True \<longleftrightarrow> (\<forall>e \<in> set ((c, Success) # es). snd e = Success)"
        using es(4) by simp
      have 5: "r = Returns True \<longrightarrow> map fst ((c, Success) # es) = c # cs"
        using es(5) by simp
      have 6: "r \<noteq> Returns True \<longrightarrow> (c, Success) # es \<noteq> []"
        by simp
      have 7: "driver s' = driver s" using es(7) eff by simp
      have 8: "session_open s' = session_open s" using es(8) eff by simp
      have 9: "teardown_calls s' = teardown_calls s" using es(9) eff by simp
      show ?thesis
        by (rule exI [of _ "(c, Success) # es"]) (intro conjI; fact)
    qed
  qed
qed


lemma teardown_effect:
  "stage_log (teardown s) = stage_log s \<and> teardown_calls (teardown s) = Suc (teardown_calls s) \<and>
   (session_open (teardown s) \<longleftrightarrow> session_open s \<and> \<not> driver s)"
  by (simp add: teardown_def Let_def)

lemma run_log_shape:
  "\<exists>es. stage_log (snd (run env jd s)) = stage_log s @ es \<and>
        prefix (map fst es) (Setup_driver # stage_calls (effective_job jd)) \<and>
        (\<forall>e \<in> set (butlast es). snd e = Success) \<and>
        (fst (run env jd s) \<longleftrightarrow> (\<forall>e \<in> set es. snd e = Success)) \<and>
        (fst (run env jd s) \<longrightarrow> map fst es = Setup_driver # stage_calls (effective_job jd)) \<and>
        es \<noteq> []"
proof -
  obtain x w where nc: "new_chrome env (browser s) = (x, w)"
    by (cases "new_chrome env (browser s)")
  show ?thesis
  proof (cases x)
    case (Some e)
    with nc have "run env jd s =
        (False, teardown (s\<lparr>browser := w, stage_log := stage_log s @ [(Setup_driver, Fault e)]\<rparr>))"
      by (simp add: run_def run_try_stages setup_driver_def)
    then show ?thesis
      by (intro exI [of _ "[(Setup_driver, Fault e)]"]) (simp add: teardown_effect)
  next
    case None
    define s1 where "s1 = s\<lparr>driver := True, wait_timeout := Some 15, browser := w,
        session_open := True, stage_log := stage_log s @ [(Setup_driver, Success)]\<rparr>"
    obtain r s2 where rs: "run_stages env (stage_calls (effective_job jd)) s1 = (r, s2)"
      by (cases "run_stages env (stage_calls (effective_job jd)) s1")
    from None nc rs have run_eq: "run env jd s = ((r = Returns True), teardown s2)"
      by (cases r) (auto simp: run_def run_try_stages setup_driver_def s1_def)
    from run_stages_effect [OF rs] obtain es where es:
      "stage_log s2 = stage_log s1 @ es"
      "prefix (map fst es) (stage_calls (effective_job jd))"
      "\<forall>e \<in> set (butlast es). snd e = Success"
      "r = Returns True \<longleftrightarrow> (\<forall>e \<in> set es. snd e = Success)"
      "r = Returns True \<longrightarrow> map fst es = stage_calls (effective_job jd)"
      by blast
    have 1: "stage_log (snd (run env jd s)) = stage_log s @ (Setup_driver, Success) # es"
      using es(1) by (simp add: run_eq teardown_effect s1_def)
    have 2: "prefix (map fst ((Setup_driver, Success) # es))
               (Setup_driver # stage_calls (effective_job jd))"
      using es(2) by simp
    have 3: "\<forall>e \<in> set (butlast ((Setup_driver, Success) # es)). snd e = Success"
      using es(3) by (cases es) auto
    have 4: "fst (run env jd s) \<longleftrightarrow> (\<forall>e \<in> set ((Setup_driver, Success) # es). snd e = Success)"
      using es(4) by (simp add: run_eq)
    have 5: "fst (run env jd s) \<longrightarrow>
               map fst ((Setup_driver, Success) # es) = Setup_driver # stage_calls (effective_job jd)"
      using es(5) by (simp add: run_eq)
    have 6: "(Setup_driver, Success) # es \<noteq> []" by simp
    show ?thesis
      by (rule exI [of _ "(Setup_driver, Success) # es"]) (intro conjI; fact)
  qed
qed

lemma distinct_stage_calls: "distinct (Setup_driver # stage_calls job)"
  by (simp add: stage_calls_def)

lemma prefix_distinct: "prefix xs ys \<Longrightarrow> distinct ys \<Longrightarrow> distinct xs"
  by (auto simp: prefix_def)

text \<open>
  Claim C1.  \<open>run\<close>, started on a fresh automator, hands back true exactly when
  every stage it invoked reported success.  The stages it invokes are an initial segment
  of the fixed sequence (driver setup, login, placement selection, company data, job
  title, profile source, location, position type, job function, category, CTC details,
  equity checkbox, salary break-up, job description, create-and-confirm, applicable
  courses, eligibility criteria, hiring workflow), and the whole sequence when it hands
  back true.  Every stage but the last one invoked reported success, so nothing is
  invoked after a stage that failed; and no stage is invoked twice.
\<close>

theorem run_true_iff_every_stage_succeeds:
  "(run_result env jd w \<longleftrightarrow> (\<forall>e \<in> set (run_log env jd w). snd e = Success)) \<and>
   prefix (map fst (run_log env jd w)) (Setup_driver # stage_calls (effective_job jd)) \<and>
   (run_result env jd w \<longrightarrow>
      map fst (run_log env jd w) = Setup_driver # stage_calls (effective_job jd)) \<and>
   (\<forall>e \<in> set (butlast (run_log env jd w)). snd e = Success) \<and>
   distinct (map fst (run_log env jd w)) \<and>
   run_log env jd w \<noteq> []"
proof -
  from run_log_shape [of env jd "SupersetAutomator_init w"] obtain es where es:
    "stage_log (snd (run env jd (SupersetAutomator_init w))) = stage_log (SupersetAutomator_init w) @ es"
    "prefix (map fst es) (Setup_driver # stage_calls (effective_job jd))"
    "\<forall>e \<in> set (butlast es). snd e = Success"
    "fst (run env jd (SupersetAutomator_init w)) \<longleftrightarrow> (\<forall>e \<in> set es. snd e = Success)"
    "fst (run env jd (SupersetAutomator_init w)) \<longrightarrow>
       map fst es = Setup_driver # stage_calls (effective_job jd)"
    "es \<noteq> []"
    by (elim exE conjE) (rule that; assumption)
  have log: "run_log env jd w = es"
    using es(1) by (simp add: run_log_def SupersetAutomator_init_def)
  have d: "distinct (map fst es)"
    using prefix_distinct [OF es(2) distinct_stage_calls] .
  show ?thesis
    unfolding log run_result_def using es(2-6) d by blast
qed

lemma run_final_state:
  "teardown_calls (snd (run env jd s)) = Suc (teardown_calls s) \<and>
   (session_open (snd (run env jd s)) \<longrightarrow> session_open s \<and> \<not> driver s)"
proof -
  obtain x w where nc: "new_chrome env (browser s) = (x, w)"
    by (cases "new_chrome env (browser s)")
  show ?thesis
  proof (cases x)
    case (Some e)
    with nc have "run env jd s =
        (False, teardown (s\<lparr>browser := w, stage_log := stage_log s @ [(Setup_driver, Fault e)]\<rparr>))"
      by (simp add: run_def run_try_stages setup_driver_def)
    then show ?thesis
      by (simp add: teardown_effect)
  next
    case None
    define s1 where "s1 = s\<lparr>driver := True, wait_timeout := Some 15, browser := w,
        session_open := True, stage_log := stage_log s @ [(Setup_driver, Success)]\<rparr>"
    obtain r s2 where rs: "run_stages env (stage_calls (effective_job jd)) s1 = (r, s2)"
      by (cases "run_stages env (stage_calls (effective_job jd)) s1")
    from None nc rs have run_eq: "run env jd s = ((r = Returns True), teardown s2)"
      by (cases r) (auto simp: run_def run_try_stages setup_driver_def s1_def)
    from run_stages_effect [OF rs] have
      "driver s2 = driver s1 \<and> teardown_calls s2 = teardown_calls s1"
      by blast
    then show ?thesis
      by (simp add: run_eq teardown_effect s1_def)
  qed
qed

text \<open>
  Claim C2.  Whatever the stages do (succeed, report failure, or raise), one call of
  \<open>run\<close> calls \<open>teardown\<close> exactly once, and after a run on a fresh
  automator no browser session is open.
\<close>

theorem run_tears_down_once:
  "teardown_calls (snd (run env jd s)) = Suc (teardown_calls s) \<and>
   \<not> session_open (snd (run env jd (SupersetAutomator_init w)))"
  using run_final_state [of env jd s] run_final_state [of env jd "SupersetAutomator_init w"]
  by (simp add: SupersetAutomator_init_def)

text \<open>A run in which the job description stage raises an exception that it does not handle.\<close>

theorem run_tears_down_once_witness:
  "teardown_calls (snd (run (crashing (Fill_tinymce_field_by_label ''Job Description'' []) OtherWebDriverException)
       None (SupersetAutomator_init 0))) = 1 \<and>
   \<not> session_open (snd (run (crashing (Fill_tinymce_field_by_label ''Job Description'' []) OtherWebDriverException)
       None (SupersetAutomator_init 0))) \<and>
   \<not> fst (run (crashing (Fill_tinymce_field_by_label ''Job Description'' []) OtherWebDriverException)
       None (SupersetAutomator_init 0))"
  using run_tears_down_once [of "crashing (Fill_tinymce_field_by_label ''Job Description'' []) OtherWebDriverException"
      None "SupersetAutomator_init 0" 0]
  by (simp add: SupersetAutomator_init_def run_def run_try_def guard_def invoke_def setup_driver_def
      crashing_def effective_job_def JobData_init_def teardown_def)

text \<open>A run on a healthy site, and a run whose login is rejected.\<close>

theorem run_true_iff_every_stage_succeeds_witness:
  "run_result healthy None 0 \<and>
   map fst (run_log healthy None 0) = Setup_driver # stage_calls (effective_job None) \<and>
   \<not> run_result (rejecting Login) None 0 \<and>
   run_log (rejecting Login) None 0 = [(Setup_driver, Success), (Login, Failure)]"
  using run_true_iff_every_stage_succeeds [of healthy None 0]
    run_true_iff_every_stage_succeeds [of "rejecting Login" None 0]
  by (simp add: run_result_def run_log_def SupersetAutomator_init_def run_def run_try_def guard_def
      invoke_def setup_driver_def healthy_def rejecting_def effective_job_def JobData_init_def
      teardown_def stage_calls_def)

text \<open>
  Claim C10.  \<open>run\<close> without a job record is \<open>run\<close> with the record
  of company "Mercedes Benz", title "Full Stack Developer" and the dataclass defaults
  (location "Pune", salaries 1000000 and 1500000, empty description, function and
  break-up); it is not rejected: the stages are called with these values, and on a site
  where every stage succeeds the whole workflow runs and the result is true.
\<close>

theorem run_without_job_record_uses_defaults:
  "run env None s =
     run env (Some \<lparr> company_name = ''Mercedes Benz'', job_title = ''Full Stack Developer'',
                     location = ''Pune'', min_salary = 1000000, max_salary = 1500000,
                     job_description = [], job_function = [], salary_breakup = [],
                     posted_by = [], timestamp = [], is_ai_generated = False \<rparr>) s \<and>
   stage_calls (effective_job None) =
     [Login, Select_placement_option, Fill_company_data ''Mercedes Benz'',
      Fill_job_profile_title ''Full Stack Developer'', Fill_job_profile_source,
      Fill_job_location ''Pune'', Fill_position_type, Fill_job_function [], Fill_category,
      Add_ctc_details 1000000 1500000, Click_is_equity_checkbox,
      Fill_tinymce_field_by_label ''Salary break-up / Additional Compensation'' [],
      Fill_tinymce_field_by_label ''Job Description'' [],
      Click_create_and_confirm, Select_applicable_courses, Set_eligibility_criteria,
      Setup_hiring_workflow] \<and>
   map fst (run_log healthy None 0) = Setup_driver # stage_calls (effective_job None) \<and>
   run_result healthy None 0"
  by (simp add: run_result_def run_log_def SupersetAutomator_init_def run_def run_try_def guard_def
      invoke_def setup_driver_def healthy_def effective_job_def JobData_init_def
      teardown_def stage_calls_def)

section \<open>Properties of the interaction layer and of the stages\<close>

text \<open>
  Claim C5.  Neither primitive lets an exception out.  \<open>safe_click\<close> starts by
  scrolling the element into view and then clicks it natively; the script click is
  tried exactly when what the \<open>try\<close> block raised is the click-intercepted exception,
  and then the result is true exactly when the script click returns; any other failure
  gives false.  \<open>safe_input\<close> gives true when clearing and typing both return, and
  false otherwise.
\<close>

theorem interaction_primitives_collapse_failures:
  "(\<exists>b. fst (safe_click u) = Returns b) \<and>
   (\<exists>ops. snd (safe_click u) = Scroll_into_view # ops) \<and>
   (scroll_script u = None \<longrightarrow> take 2 (snd (safe_click u)) = [Scroll_into_view, Native_click]) \<and>
   (Script_click \<in> set (snd (safe_click u)) \<longleftrightarrow>
      fst (safe_click_try u) = Raises ElementClickInterceptedException) \<and>
   (fst (safe_click u) = Returns True \<longleftrightarrow>
      (scroll_script u = None \<and> element_click u = None) \<or>
      (fst (safe_click_try u) = Raises ElementClickInterceptedException \<and> click_script u = None)) \<and>
   (\<exists>b. fst (safe_input i v) = Returns b) \<and>
   (fst (safe_input i v) = Returns True \<longleftrightarrow> element_clear i = None \<and> element_send_keys i = None)"
  by (auto simp: safe_click_def safe_click_try_def safe_input_def safe_input_try_def split: option.splits)

theorem interaction_primitives_collapse_failures_witness:
  "fst (safe_click \<lparr>scroll_script = None, element_click = Some ElementClickInterceptedException,
                     click_script = None\<rparr>) = Returns True \<and>
   snd (safe_click \<lparr>scroll_script = None, element_click = Some ElementClickInterceptedException,
                     click_script = None\<rparr>) = [Scroll_into_view, Native_click, Script_click] \<and>
   fst (safe_input \<lparr>element_clear = None, element_send_keys = Some OtherWebDriverException\<rparr> ''x'')
     = Returns False"
  using interaction_primitives_collapse_failures
    [of "\<lparr>scroll_script = None, element_click = Some ElementClickInterceptedException, click_script = None\<rparr>"
        "\<lparr>element_clear = None, element_send_keys = Some OtherWebDriverException\<rparr>" "''x''"]
  by (simp add: safe_click_def safe_click_try_def safe_input_def safe_input_try_def)


text \<open>
  Claim C3 says that no stage function lets an exception out.  The rich-text stage does:
  when clearing the editor's body raises a \<open>WebDriverException\<close> that is neither
  a timeout nor a missing element (a stale element reference, say), the exception
  leaves \<open>fill_tinymce_field_by_label\<close>.
\<close>

theorem tinymce_stage_lets_exception_out:
  "fst (fill_tinymce_field_by_label (body_clear_raises OtherWebDriverException)
          label_text content fresh_page) = Raises OtherWebDriverException"
  by (simp add: fill_tinymce_field_by_label_def fill_tinymce_try_def body_clear_raises_def)

text \<open>
  Claim C4 says that the rich-text stage leaves the default content selected on every
  exit path.  On the path of the exception above it does not: the driver is still inside
  the editor's frame when the exception leaves the function.
\<close>

theorem tinymce_stage_leaves_frame_selected:
  "current_frame (snd (fill_tinymce_field_by_label (body_clear_raises OtherWebDriverException)
          label_text content fresh_page)) = In_frame"
  by (simp add: fill_tinymce_field_by_label_def fill_tinymce_try_def body_clear_raises_def
      fresh_page_def)

text \<open>
  Claim C7 says that the salary stage reports success only when the two fields hold
  the values written.  When the script of \<open>js_input\<close> raises on the minimum
  field, \<open>js_input\<close> hands back false, \<open>add_ctc_details\<close> drops that and
  hands back true, and the minimum field holds no value.
\<close>

theorem ctc_stage_succeeds_without_values:
  "fst (add_ctc_details (cooperative_ctc\<lparr>script_ctcMin := Some OtherWebDriverException\<rparr>)
          1200000 1800000 blank_form) = Returns True \<and>
   field_value (ctcMin (snd (add_ctc_details
          (cooperative_ctc\<lparr>script_ctcMin := Some OtherWebDriverException\<rparr>)
          1200000 1800000 blank_form))) = None"
  by (simp add: add_ctc_details_def add_ctc_details_try_def cooperative_ctc_def click_range_def
      blank_form_def js_input_def)

section \<open>Properties of the company stage, the waits and the form\<close>

text \<open>
  Claim C6 says that the company stage reports success only when the company ends up
  selected.  When the company is unknown, its creation works and the search after the
  creation shows no suggestions, the second \<open>select_company\<close> hands back false,
  \<open>fill_company_data\<close> drops that and hands back true, and no company is selected.
  The creation sub-flow was called once, between the two selections.
\<close>

theorem company_stage_succeeds_without_selection:
  "fst (fill_company_data created_but_not_found ''Acme Robotics'' empty_company_form) = Returns True \<and>
   selected_company (snd (fill_company_data created_but_not_found ''Acme Robotics'' empty_company_form))
     = None \<and>
   method_calls (snd (fill_company_data created_but_not_found ''Acme Robotics'' empty_company_form))
     = [Select_company, Add_new_company, Select_company]"
  by (simp add: fill_company_data_def fill_company_data_try_def select_company_def
      select_company_try_def add_new_company_def add_new_company_try_def
      submit_new_company_def created_but_not_found_def no_suggestions_def creation_works_def
      empty_company_form_def py_lower_def char_lower_def)

text \<open>
  Claim C8 as stated: every wait of a stage has the maximum 15, or 30 in the three
  long-running stages.  The rich-text stage waits with a maximum of 10.
\<close>

theorem waits_not_all_15_or_30:
  "\<not> (\<forall>c. \<forall>t \<in> set (wait_budgets c). t = (if long_running c then 30 else 15))"
proof
  assume "\<forall>c. \<forall>t \<in> set (wait_budgets c). t = (if long_running c then 30 else 15)"
  then have "\<forall>t \<in> set (wait_budgets (Fill_tinymce_field_by_label ''Job Description'' [])).
      t = (if long_running (Fill_tinymce_field_by_label ''Job Description'' []) then 30 else 15)"
    by blast
  then show False by simp
qed

text \<open>
  Claim C8, amended: every wait of a stage has the maximum 15, but for the three
  long-running stages, which wait with 30, and the rich-text and create-and-confirm
  stages, which wait with 10; no wait has a maximum below 10.
\<close>

theorem waits_are_15_30_or_10:
  "\<forall>t \<in> set (wait_budgets c).
     t = (if long_running c then 30 else if builds_own_wait c then 10 else 15) \<and> 10 \<le> t"
  by (cases c)
    (simp_all add: session_wait_def select_company_waits_def add_new_company_waits_def)

theorem waits_are_15_30_or_10_witness:
  "wait_budgets Login \<noteq> [] \<and> hd (wait_budgets Login) = 15 \<and>
   hd (wait_budgets Click_create_and_confirm) = 10 \<and>
   hd (wait_budgets Setup_hiring_workflow) = 30"
  using waits_are_15_30_or_10 [of Login] waits_are_15_30_or_10 [of Click_create_and_confirm]
    waits_are_15_30_or_10 [of Setup_hiring_workflow]
  by (simp add: session_wait_def)

text \<open>
  The part of claim C9 about the range: the salary stage, on a page that answers every
  call, hands back true and writes both values, whatever the two integers are; and
  \<open>run\<close>, on a site where every stage succeeds, hands back true and calls the salary
  stage with the record's two values, whatever they are.  Nowhere is the minimum
  compared with the maximum.
\<close>

lemma salaries_never_compared:
  "fst (add_ctc_details cooperative_ctc mn mx blank_form) = Returns True \<and>
   field_value (ctcMin (snd (add_ctc_details cooperative_ctc mn mx blank_form))) = Some mn \<and>
   field_value (ctcMax (snd (add_ctc_details cooperative_ctc mn mx blank_form))) = Some mx \<and>
   run_result healthy (Some job) w \<and>
   (Add_ctc_details (min_salary job) (max_salary job), Success) \<in> set (run_log healthy (Some job) w)"
  by (simp add: add_ctc_details_def add_ctc_details_try_def cooperative_ctc_def
      click_range_def blank_form_def js_input_def run_result_def run_log_def
      SupersetAutomator_init_def run_def run_try_def guard_def invoke_def setup_driver_def
      healthy_def effective_job_def teardown_def)

text \<open>
  What the form does with texts that are plainly not numbers: a text with a character
  that \<open>isdigit\<close> refuses (a letter, a blank, a sign, a decimal point) becomes 0, and
  so does the empty text; a text of decimal digits becomes its value.
\<close>

lemma form_salary_zero_on_other_characters:
  "(s = [] \<or> (\<exists>c \<in> set s. \<not> char_isdigit c)) \<Longrightarrow> form_salary s = Returns 0"
  by (auto simp: form_salary_def str_isdigit_def list_all_iff)

lemma form_salary_examples:
  "form_salary ''1200000'' = Returns 1200000 \<and> form_salary [] = Returns 0 \<and>
   form_salary ''-5'' = Returns 0 \<and> form_salary ''12 lakh'' = Returns 0"
  by (simp add: form_salary_def str_isdigit_def char_isdigit_def char_isdecimal_def
      int_of_digits_def)

text \<open>
  Claim C9 says that a salary text that is not composed entirely of digits becomes 0
  in the form.  The form tests the text with \<open>isdigit\<close>, which also accepts the
  superscript digits, and \<open>int\<close> does not: the text of the digit 1 followed by a
  superscript two (code point 0xB2) is not a decimal number, yet it passes the test,
  and the form raises \<open>ValueError\<close> instead of yielding 0.  The superscript two
  alone does the same.
\<close>

theorem form_salary_raises_on_superscript_digit:
  "\<not> list_all char_isdecimal [CHR ''1'', CHR 0xB2] \<and>
   str_isdigit [CHR ''1'', CHR 0xB2] \<and>
   form_salary [CHR ''1'', CHR 0xB2] = Raises ValueError \<and>
   form_salary [CHR 0xB2] = Raises ValueError"
  by (simp add: form_salary_def str_isdigit_def char_isdigit_def char_isdecimal_def
      int_of_digits_def)

end
